theory Spec2Isabelle
  imports Complex_Main
begin

section \<open>JavaScript numbers\<close>

text \<open>
  The component computes with JavaScript numbers. A number is modelled as one of the two
  infinities, the not-a-number value, or a finite value held as an exact rational: the
  rounding of finite results to binary64, overflow to an infinity and the sign of zero are
  not modelled.
\<close>

datatype jsnum = NaN | NegInf | PosInf | Fin rat

fun js_neg :: "jsnum \<Rightarrow> jsnum" where
  "js_neg NaN = NaN"
| "js_neg NegInf = PosInf"
| "js_neg PosInf = NegInf"
| "js_neg (Fin x) = Fin (- x)"

fun js_add :: "jsnum \<Rightarrow> jsnum \<Rightarrow> jsnum" where
  "js_add (Fin x) (Fin y) = Fin (x + y)"
| "js_add NaN b = NaN"
| "js_add a NaN = NaN"
| "js_add PosInf NegInf = NaN"
| "js_add NegInf PosInf = NaN"
| "js_add PosInf b = PosInf"
| "js_add a PosInf = PosInf"
| "js_add NegInf b = NegInf"
| "js_add a NegInf = NegInf"

definition js_sub :: "jsnum \<Rightarrow> jsnum \<Rightarrow> jsnum" where
  "js_sub a b = js_add a (js_neg b)"

text \<open>The sign of a number that is not NaN: -1, 0 or 1.\<close>

fun js_sgn :: "jsnum \<Rightarrow> int" where
  "js_sgn NaN = 0"
| "js_sgn NegInf = - 1"
| "js_sgn PosInf = 1"
| "js_sgn (Fin x) = (if x < 0 then - 1 else if x = 0 then 0 else 1)"

definition inf_of_sgn :: "int \<Rightarrow> jsnum" where
  "inf_of_sgn k = (if k = 0 then NaN else if 0 < k then PosInf else NegInf)"

fun js_mul :: "jsnum \<Rightarrow> jsnum \<Rightarrow> jsnum" where
  "js_mul (Fin x) (Fin y) = Fin (x * y)"
| "js_mul NaN b = NaN"
| "js_mul a NaN = NaN"
| "js_mul a b = inf_of_sgn (js_sgn a * js_sgn b)"

text \<open>
  Division. A zero divisor is read as positive zero (the sign of zero is not modelled); the
  component only ever divides by the literal 100.
\<close>

fun js_div :: "jsnum \<Rightarrow> jsnum \<Rightarrow> jsnum" where
  "js_div NaN b = NaN"
| "js_div a NaN = NaN"
| "js_div (Fin x) (Fin y) = (if y = 0 then inf_of_sgn (js_sgn (Fin x)) else Fin (x / y))"
| "js_div (Fin x) b = Fin 0"
| "js_div a (Fin y) = inf_of_sgn (js_sgn a * (if y < 0 then - 1 else 1))"
| "js_div a b = NaN"

text \<open>\<open>Math.round\<close>: the nearest integer, a tie going up.\<close>

fun Math_round :: "jsnum \<Rightarrow> jsnum" where
  "Math_round (Fin x) = Fin (of_int \<lfloor>x + 1 / 2\<rfloor>)"
| "Math_round a = a"

text \<open>The comparisons \<open><=\<close> and \<open><\<close>: false as soon as one side is NaN.\<close>

fun js_le :: "jsnum \<Rightarrow> jsnum \<Rightarrow> bool" where
  "js_le NaN b = False"
| "js_le a NaN = False"
| "js_le NegInf b = True"
| "js_le a PosInf = True"
| "js_le (Fin x) (Fin y) = (x \<le> y)"
| "js_le a b = False"

fun js_lt :: "jsnum \<Rightarrow> jsnum \<Rightarrow> bool" where
  "js_lt NaN b = False"
| "js_lt a NaN = False"
| "js_lt a b = (js_le a b \<and> a \<noteq> b)"

text \<open>
  \<open>Math.max\<close> and \<open>Math.min\<close> of an argument list: NaN as soon as one argument is NaN,
  and the infinity that is neutral for the operation when the list is empty.
\<close>

definition js_max2 :: "jsnum \<Rightarrow> jsnum \<Rightarrow> jsnum" where
  "js_max2 a b = (if a = NaN \<or> b = NaN then NaN else if js_lt a b then b else a)"

definition js_min2 :: "jsnum \<Rightarrow> jsnum \<Rightarrow> jsnum" where
  "js_min2 a b = (if a = NaN \<or> b = NaN then NaN else if js_lt b a then b else a)"


definition Math_min :: "jsnum list \<Rightarrow> jsnum" where
  "Math_min xs = foldl js_min2 PosInf xs"

section \<open>parseFloat\<close>

text \<open>
  \<open>parseFloat\<close> drops leading white space and reads the longest prefix that is a decimal
  literal: an optional sign, then \<open>Infinity\<close> or digits with an optional fraction and an
  optional exponent. Without such a prefix the result is NaN. Strings are byte strings, so
  the white space recognised is tab, line feed, vertical tab, form feed, carriage return,
  space and the no-break space.
\<close>

definition is_ws :: "char \<Rightarrow> bool" where
  "is_ws c = ((of_char c :: nat) \<in> {9, 10, 11, 12, 13, 32, 160})"

definition is_digit :: "char \<Rightarrow> bool" where
  "is_digit c = (48 \<le> (of_char c :: nat) \<and> (of_char c :: nat) \<le> 57)"

definition digits_val :: "string \<Rightarrow> nat" where
  "digits_val ds = foldl (\<lambda>a c. 10 * a + ((of_char c :: nat) - 48)) 0 ds"

definition split_sign :: "string \<Rightarrow> bool \<times> string" where
  "split_sign t =
     (case t of
        [] \<Rightarrow> (False, t)
      | c # r \<Rightarrow> if c = CHR ''-'' then (True, r) else if c = CHR ''+'' then (False, r)
                 else (False, t))"

definition exponent_part :: "string \<Rightarrow> int" where
  "exponent_part r =
     (case r of
        [] \<Rightarrow> 0
      | c # r' \<Rightarrow>
          if c = CHR ''e'' \<or> c = CHR ''E'' then
            (let (eneg, d) = split_sign r'; ds = takeWhile is_digit d
             in if ds = [] then 0
                else if eneg then - int (digits_val ds) else int (digits_val ds))
          else 0)"

definition scale10 :: "rat \<Rightarrow> int \<Rightarrow> rat" where
  "scale10 m e = (if 0 \<le> e then m * 10 ^ nat e else m / 10 ^ nat (- e))"

definition parseFloat :: "string \<Rightarrow> jsnum" where
  "parseFloat str =
     (let (neg, u) = split_sign (dropWhile is_ws str)
      in if take 8 u = ''Infinity'' then (if neg then NegInf else PosInf)
         else
           (let ip = takeWhile is_digit u;
                r1 = dropWhile is_digit u;
                (fp, r2) = (case r1 of
                              [] \<Rightarrow> ([], r1)
                            | c # r \<Rightarrow> if c = CHR ''.''
                                       then (takeWhile is_digit r, dropWhile is_digit r)
                                       else ([], r1))
            in if ip = [] \<and> fp = [] then NaN
               else
                 (let mant = of_nat (digits_val (ip @ fp)) / 10 ^ length fp;
                      v = scale10 mant (exponent_part r2)
                  in Fin (if neg then - v else v))))"

section \<open>The hedging strategy component\<close>

text \<open>
  The state of \<open>HedgingStrategy\<close>: the selected strategy, the three slider values (each
  slider holds a single number) and the two premium text fields, kept as typed.
\<close>

record hedging_state =
  strategy :: string
  currentPrice :: rat
  putStrike :: rat
  callStrike :: rat
  putPremium :: string
  callPremium :: string

definition initial_state :: hedging_state where
  "initial_state =
     \<lparr>strategy = ''collar'', currentPrice = 100, putStrike = 95, callStrike = 110,
      putPremium = ''10'', callPremium = ''10''\<rparr>"

record payoff_point =
  price :: int
  payoff :: jsnum

text \<open>The body of the loop of \<open>generatePayoffData\<close>: the payoff before rounding.\<close>

definition raw_payoff :: "hedging_state \<Rightarrow> rat \<Rightarrow> jsnum" where
  "raw_payoff s pr =
     (let stockGain = Fin (pr - currentPrice s)
      in if strategy s = ''collar'' then
           (let putPayoff = js_sub (Fin (max (putStrike s - pr) 0)) (parseFloat (putPremium s));
                callPayoff = js_add (js_neg (Fin (max (pr - callStrike s) 0)))
                                    (parseFloat (callPremium s))
            in js_add (js_add stockGain putPayoff) callPayoff)
         else if strategy s = ''protective_put'' then
           (let putPayoff = js_sub (Fin (max (putStrike s - pr) 0)) (parseFloat (putPremium s))
            in js_add stockGain putPayoff)
         else if strategy s = ''bear_put_spread'' then
           (let longPutPayoff = js_sub (Fin (max (putStrike s - pr) 0))
                                       (parseFloat (putPremium s));
                shortPutPayoff = js_add (js_neg (Fin (max (callStrike s - pr) 0)))
                                        (parseFloat (callPremium s))
            in js_add longPutPayoff shortPutPayoff)
         else Fin 0)"

text \<open>\<open>Math.round(payoff * 100) / 100\<close>.\<close>

definition round_cents :: "jsnum \<Rightarrow> jsnum" where
  "round_cents v = js_div (Math_round (js_mul v (Fin 100))) (Fin 100)"

definition payoff_entry :: "hedging_state \<Rightarrow> int \<Rightarrow> payoff_point" where
  "payoff_entry s pr = \<lparr>price = pr, payoff = round_cents (raw_payoff s (of_int pr))\<rparr>"

text \<open>The loop \<open>for (let price = 85; price <= 120; price += 1)\<close>, pushing one entry each turn.\<close>

function payoff_loop :: "hedging_state \<Rightarrow> int \<Rightarrow> payoff_point list \<Rightarrow> payoff_point list" where
  "payoff_loop s pr data =
     (if pr \<le> 120 then payoff_loop s (pr + 1) (data @ [payoff_entry s pr]) else data)"
  by pat_completeness auto
termination
  by (relation "measure (\<lambda>(s, pr, data). nat (121 - pr))") auto

definition generatePayoffData :: "hedging_state \<Rightarrow> payoff_point list" where
  "generatePayoffData s = payoff_loop s 85 []"

definition getBreakeven :: "hedging_state \<Rightarrow> jsnum" where
  "getBreakeven s =
     (if strategy s = ''collar'' then
        js_sub (js_add (Fin (currentPrice s)) (parseFloat (callPremium s)))
               (parseFloat (putPremium s))
      else if strategy s = ''protective_put'' then
        js_add (Fin (currentPrice s)) (parseFloat (putPremium s))
      else if strategy s = ''bear_put_spread'' then
        js_add (js_sub (Fin (putStrike s)) (parseFloat (putPremium s)))
               (parseFloat (callPremium s))
      else Fin (currentPrice s))"

definition maxLoss :: "hedging_state \<Rightarrow> jsnum" where
  "maxLoss s = Math_min (map payoff (generatePayoffData s))"



definition shown_maxLoss :: "hedging_state \<Rightarrow> jsnum" where
  "shown_maxLoss s = Math_round (maxLoss s)"


text \<open>The payoff the curve holds at a price, when the price is a point of the curve.\<close>

definition payoff_at :: "payoff_point list \<Rightarrow> int \<Rightarrow> jsnum option" where
  "payoff_at data pr = map_option payoff (find (\<lambda>d. price d = pr) data)"

section \<open>The strike sliders\<close>

text \<open>
  A slider is given its bounds and step as properties; the bounds of the two strike
  sliders are computed from the state. Moving a slider stores the new value and touches
  nothing else, and so does choosing a strategy or typing a premium.
\<close>

record slider_props =
  slider_min :: rat
  slider_max :: rat
  slider_step :: rat

definition currentPrice_slider :: slider_props where
  "currentPrice_slider = \<lparr>slider_min = 50, slider_max = 150, slider_step = 1\<rparr>"

definition putStrike_slider :: "hedging_state \<Rightarrow> slider_props" where
  "putStrike_slider s = \<lparr>slider_min = 50, slider_max = currentPrice s - 5, slider_step = 1\<rparr>"

definition callStrike_slider :: "hedging_state \<Rightarrow> slider_props" where
  "callStrike_slider s =
     \<lparr>slider_min = (if strategy s = ''bear_put_spread'' then putStrike s + 5
                     else currentPrice s + 5),
      slider_max = 150, slider_step = 1\<rparr>"

text \<open>The second strike slider is rendered for the collar and the bear put spread only.\<close>

definition callStrike_slider_shown :: "hedging_state \<Rightarrow> bool" where
  "callStrike_slider_shown s = (strategy s = ''collar'' \<or> strategy s = ''bear_put_spread'')"

definition in_bounds :: "slider_props \<Rightarrow> rat \<Rightarrow> bool" where
  "in_bounds sl v = (slider_min sl \<le> v \<and> v \<le> slider_max sl)"





definition setPutPremium :: "string \<Rightarrow> hedging_state \<Rightarrow> hedging_state" where
  "setPutPremium v s = s\<lparr>putPremium := v\<rparr>"

definition setCallPremium :: "string \<Rightarrow> hedging_state \<Rightarrow> hedging_state" where
  "setCallPremium v s = s\<lparr>callPremium := v\<rparr>"

text \<open>Every value of the state lies within the bounds of the slider that shows it.\<close>

definition sliders_in_bounds :: "hedging_state \<Rightarrow> bool" where
  "sliders_in_bounds s =
     (in_bounds currentPrice_slider (currentPrice s) \<and>
      in_bounds (putStrike_slider s) (putStrike s) \<and>
      (callStrike_slider_shown s \<longrightarrow> in_bounds (callStrike_slider s) (callStrike s)))"

section \<open>The payoff model of the specification\<close>

text \<open>
  A strategy specification is a tagged value: the underlying price, the put strike and
  premium, and for the collar and the bear put spread a second strike and premium (the
  call, or the short put). All fields are numbers, in this order: underlying price, put
  strike, put premium, second strike, second premium.
\<close>

datatype strategy_spec =
    ProtectivePut rat rat rat
  | Collar rat rat rat rat rat
  | BearPutSpread rat rat rat rat rat

definition spec_stock_leg :: "rat \<Rightarrow> rat \<Rightarrow> rat" where
  "spec_stock_leg underlying pr = pr - underlying"

definition spec_long_put :: "rat \<Rightarrow> rat \<Rightarrow> rat \<Rightarrow> rat" where
  "spec_long_put strike premiumPaid pr = max (strike - pr) 0 - premiumPaid"

definition spec_short_call :: "rat \<Rightarrow> rat \<Rightarrow> rat \<Rightarrow> rat" where
  "spec_short_call strike premiumReceived pr = - max (pr - strike) 0 + premiumReceived"

definition spec_short_put :: "rat \<Rightarrow> rat \<Rightarrow> rat \<Rightarrow> rat" where
  "spec_short_put strike premiumReceived pr = - max (strike - pr) 0 + premiumReceived"

fun spec_payoff :: "strategy_spec \<Rightarrow> rat \<Rightarrow> rat" where
  "spec_payoff (ProtectivePut u k a) pr = spec_stock_leg u pr + spec_long_put k a pr"
| "spec_payoff (Collar u k a k2 b) pr =
     spec_stock_leg u pr + spec_long_put k a pr + spec_short_call k2 b pr"
| "spec_payoff (BearPutSpread u k a k2 b) pr = spec_long_put k a pr + spec_short_put k2 b pr"




text \<open>
  The floor and the cap of a strategy over all prices; the protective put has no cap. For
  the collar they are the values below the put strike and above the call strike; for the
  spread the two legs differ by the distance of the strikes at low prices and cancel at
  high prices.
\<close>

fun spec_floor :: "strategy_spec \<Rightarrow> rat" where
  "spec_floor (ProtectivePut u k a) = k - u - a"
| "spec_floor (Collar u k a k2 b) = k - u - a + b"
| "spec_floor (BearPutSpread u k a k2 b) = min (k - k2) 0 - a + b"

fun spec_cap :: "strategy_spec \<Rightarrow> rat option" where
  "spec_cap (ProtectivePut u k a) = None"
| "spec_cap (Collar u k a k2 b) = Some (k2 - u - a + b)"
| "spec_cap (BearPutSpread u k a k2 b) = Some (max (k - k2) 0 - a + b)"

text \<open>The put strike is not above the second strike.\<close>

fun strikes_ordered :: "strategy_spec \<Rightarrow> bool" where
  "strikes_ordered (ProtectivePut u k a) = True"
| "strikes_ordered (Collar u k a k2 b) = (k \<le> k2)"
| "strikes_ordered (BearPutSpread u k a k2 b) = (k \<le> k2)"





text \<open>A rational rounded to the nearest hundredth, a tie going up.\<close>

definition cents :: "rat \<Rightarrow> rat" where
  "cents v = of_int \<lfloor>v * 100 + 1 / 2\<rfloor> / 100"




section \<open>Adding a holding\<close>

text \<open>
  The request sent to the portfolio service: a symbol, the kind of purchase (\<open>shares\<close> or
  \<open>dollars\<close>) and, optionally, a quantity and an amount.
\<close>

record AddHoldingRequest =
  symbol :: string
  type :: string
  quantity :: "jsnum option"
  amount :: "jsnum option"

text \<open>
  \<open>trim\<close> removes white space at both ends; \<open>toUpperCase\<close> is modelled on the letters a to
  z only.
\<close>

definition js_trim :: "string \<Rightarrow> string" where
  "js_trim str = rev (dropWhile is_ws (rev (dropWhile is_ws str)))"

definition upper_char :: "char \<Rightarrow> char" where
  "upper_char c =
     (if 97 \<le> (of_char c :: nat) \<and> (of_char c :: nat) \<le> 122
      then char_of ((of_char c :: nat) - 32) else c)"

definition toUpperCase :: "string \<Rightarrow> string" where
  "toUpperCase str = map upper_char str"

text \<open>
  \<open>addHoldingByShares\<close> of the portfolio component checks its arguments, logs and returns
  when one is invalid, and otherwise sends a request to the portfolio service. The model
  returns the request sent, or nothing when the function returns early.
\<close>

definition addHoldingByShares ::
    "string \<Rightarrow> string \<Rightarrow> jsnum \<Rightarrow> jsnum \<Rightarrow> AddHoldingRequest option" where
  "addHoldingByShares symb name qty pr =
     (if symb = [] \<or> js_trim symb = [] then None
      else if js_le qty (Fin 0) \<or> js_le pr (Fin 0) then None
      else Some \<lparr>symbol = toUpperCase (js_trim symb), type = ''shares'',
                 quantity = Some qty, amount = None\<rparr>)"

text \<open>
  \<open>confirmAddToPortfolio\<close> of the stock search component reads what the user typed: the
  stock chosen (its symbol, if any), the kind of purchase, and the texts of the quantity
  and the dollar amount fields. It sets an error message and returns, or builds the request
  it sends. The model returns the message or the request.
\<close>

definition confirmAddToPortfolio ::
    "string option \<Rightarrow> string \<Rightarrow> string \<Rightarrow> string \<Rightarrow> string + AddHoldingRequest" where
  "confirmAddToPortfolio stockToAdd purchaseType qtyText dollarText =
     (case stockToAdd of
        None \<Rightarrow> Inl ''No stock selected''
      | Some symb \<Rightarrow>
          if purchaseType = ''shares'' then
            (if qtyText = [] \<or> js_le (parseFloat qtyText) (Fin 0)
             then Inl ''Please enter a valid number of shares''
             else Inr \<lparr>symbol = toUpperCase (js_trim symb), type = purchaseType,
                        quantity = Some (parseFloat qtyText), amount = None\<rparr>)
          else
            (if dollarText = [] \<or> js_le (parseFloat dollarText) (Fin 0)
             then Inl ''Please enter a valid dollar amount''
             else Inr \<lparr>symbol = toUpperCase (js_trim symb), type = purchaseType,
                        quantity = None, amount = Some (parseFloat dollarText)\<rparr>))"

section \<open>Risk metrics\<close>

text \<open>
  Modelled from the spec: the risk-metrics engine (\<open>computeMetrics\<close>, with its Sharpe
  ratio and beta) is not among the source files, which only declare the stored columns
  \<open>beta\<close> and \<open>sharpe_ratio\<close> as numbers that may be null. A metric that is undefined
  fails with \<open>UndefinedMetricError\<close>.
\<close>

datatype metric_error = UndefinedMetricError

text \<open>Modelled from the spec: the mean of a sample of per-period returns.\<close>

definition mean :: "real list \<Rightarrow> real" where
  "mean xs = sum_list xs / of_nat (length xs)"

text \<open>
  Modelled from the spec: the sample covariance of two series, with one degree of freedom
  removed, and 0 for fewer than two observations.
\<close>

definition covariance :: "real list \<Rightarrow> real list \<Rightarrow> real" where
  "covariance xs ys =
     (if length xs \<le> 1 then 0
      else (\<Sum>(x, y) \<leftarrow> zip xs ys. (x - mean xs) * (y - mean ys)) / of_nat (length xs - 1))"

text \<open>Modelled from the spec: the sample variance of a series.\<close>

definition variance :: "real list \<Rightarrow> real" where
  "variance xs = covariance xs xs"

text \<open>
  Modelled from the spec: volatility, the sample standard deviation of the per-period
  returns.
\<close>

definition sample_volatility :: "real list \<Rightarrow> real" where
  "sample_volatility xs = sqrt (variance xs)"

text \<open>
  Modelled from the spec: the Sharpe ratio, the mean return minus the risk-free rate per
  period over the volatility per period, undefined when the volatility is 0.
\<close>

definition sharpe_of :: "real list \<Rightarrow> real \<Rightarrow> metric_error + real" where
  "sharpe_of returns riskFreeRatePerPeriod =
     (if sample_volatility returns = 0 then Inl UndefinedMetricError
      else Inr ((mean returns - riskFreeRatePerPeriod) / sample_volatility returns))"

text \<open>
  Modelled from the spec: beta, the covariance of the portfolio returns with the benchmark
  returns over the variance of the benchmark returns, undefined when the benchmark series
  is absent or its variance is 0.
\<close>

definition beta_of :: "real list \<Rightarrow> real list option \<Rightarrow> metric_error + real" where
  "beta_of portfolioReturns benchmark =
     (case benchmark of
        None \<Rightarrow> Inl UndefinedMetricError
      | Some benchmarkReturns \<Rightarrow>
          if variance benchmarkReturns = 0 then Inl UndefinedMetricError
          else Inr (covariance portfolioReturns benchmarkReturns / variance benchmarkReturns))"

text \<open>
  Modelled from the spec: an undefined metric is reported as a null value of that metric,
  not as a failure of the run.
\<close>

definition nullable :: "metric_error + real \<Rightarrow> real option" where
  "nullable r = (case r of Inl e \<Rightarrow> None | Inr v \<Rightarrow> Some v)"

text \<open>
  Modelled from the spec: the part of the metrics bundle that holds the volatility, beta
  and the Sharpe ratio, and its computation from the returns, the optional benchmark and
  the risk-free rate.
\<close>

record RiskMetrics =
  volatility :: real
  beta :: "real option"
  sharpeRatio :: "real option"

definition computeMetrics :: "real list \<Rightarrow> real list option \<Rightarrow> real \<Rightarrow> RiskMetrics" where
  "computeMetrics returns benchmark riskFreeRate =
     \<lparr>volatility = sample_volatility returns,
      beta = nullable (beta_of returns benchmark),
      sharpeRatio = nullable (sharpe_of returns riskFreeRate)\<rparr>"

section \<open>The curve as a list over the grid\<close>

lemma payoff_loop_eq:
  "payoff_loop s pr data = data @ map (payoff_entry s) [pr..120]"
proof (induction s pr data rule: payoff_loop.induct)
  case (1 s pr data)
  show ?case
  proof (cases "pr \<le> 120")
    case True
    then have "[pr..120] = pr # [pr + 1..120]"
      by (simp add: upto_rec1)
    with True "1.IH" show ?thesis
      by (subst payoff_loop.simps) simp
  next
    case False
    then show ?thesis
      by (subst payoff_loop.simps) simp
  qed
qed

lemma generatePayoffData_eq:
  "generatePayoffData s = map (payoff_entry s) [85..120]"
  by (simp add: generatePayoffData_def payoff_loop_eq)

lemma price_payoff_entry [simp]: "price (payoff_entry s pr) = pr"
  by (simp add: payoff_entry_def)

lemma payoff_payoff_entry [simp]:
  "payoff (payoff_entry s pr) = round_cents (raw_payoff s (of_int pr))"
  by (simp add: payoff_entry_def)



lemma payoff_at_off_grid:
  "pr < 85 \<or> 120 < pr \<Longrightarrow> payoff_at (generatePayoffData s) pr = None"
proof -
  assume "pr < 85 \<or> 120 < pr"
  then have "pr \<notin> set [85..120]"
    by (simp only: set_upto) auto
  then have "find (\<lambda>d. price d = pr) (map (payoff_entry s) [85..120]) = None"
    by (simp only: find_None_iff) auto
  then show ?thesis
    by (simp only: payoff_at_def generatePayoffData_eq) simp
qed

section \<open>Arithmetic on finite numbers\<close>

lemma js_sub_Fin [simp]: "js_sub (Fin x) (Fin y) = Fin (x - y)"
  by (simp add: js_sub_def)


lemma round_cents_Fin: "round_cents (Fin v) = Fin (cents v)"
  by (simp add: round_cents_def cents_def)



section \<open>The payoff curve against the leg sums\<close>




section \<open>The payoff at the entry price\<close>





section \<open>The price grid\<close>

text \<open>
  Claim C6, as amended. For every state, whatever the current price, the payoff is
  evaluated on the fixed grid of the integer prices from 85 to 120, in steps of 1.
\<close>

theorem grid_is_fixed: "map price (generatePayoffData s) = [85..120]"
  by (simp only: generatePayoffData_eq map_map comp_def price_payoff_entry map_ident)

text \<open>
  The grid does not follow the spot price: with the current price at 60 (and the strikes
  within their sliders' bounds) the grid is the one evaluated for the current price 100,
  and every grid price lies above 78, the upper end of a band of 30 percent around 60.
\<close>

theorem grid_counterexample:
  "map price (generatePayoffData (initial_state\<lparr>currentPrice := 60, putStrike := 55,
                                                  callStrike := 65\<rparr>))
     = map price (generatePayoffData initial_state) \<and>
   sliders_in_bounds (initial_state\<lparr>currentPrice := 60, putStrike := 55, callStrike := 65\<rparr>) \<and>
   list_all (\<lambda>p. (60 :: rat) * 130 / 100 < of_int p)
     (map price (generatePayoffData (initial_state\<lparr>currentPrice := 60, putStrike := 55,
                                                       callStrike := 65\<rparr>)))"
  by code_simp

section \<open>Unknown strategy names\<close>

lemma raw_payoff_unknown:
  "strategy s \<notin> {''collar'', ''protective_put'', ''bear_put_spread''} \<Longrightarrow>
   raw_payoff s pr = Fin 0"
  by (simp add: raw_payoff_def)

lemma cents_0 [simp]: "cents 0 = 0"
proof -
  have "\<lfloor>1 / 2 :: rat\<rfloor> = 0"
    by linarith
  then show ?thesis
    by (simp add: cents_def)
qed

lemma length_generatePayoffData: "length (generatePayoffData s) = 36"
  by (simp only: generatePayoffData_eq length_map length_upto)

text \<open>
  Claim C10. For every strategy name other than collar, protective_put and
  bear_put_spread, the payoff generator returns the curve over the whole grid with the
  payoff 0 at each of the 36 grid prices, and the breakeven is the current price.
\<close>

theorem unknown_strategy_zero_curve:
  assumes "strategy s \<notin> {''collar'', ''protective_put'', ''bear_put_spread''}"
  shows "map payoff (generatePayoffData s) = replicate 36 (Fin 0) \<and>
         map price (generatePayoffData s) = [85..120] \<and>
         getBreakeven s = Fin (currentPrice s)"
proof -
  have "map payoff (generatePayoffData s) = map (\<lambda>p. Fin 0) [85..120]"
    by (simp only: generatePayoffData_eq map_map comp_def payoff_payoff_entry
          raw_payoff_unknown [OF assms] round_cents_Fin cents_0)
  also have "\<dots> = replicate (length [85..120::int]) (Fin 0)"
    by (simp only: map_replicate_const)
  also have "\<dots> = replicate 36 (Fin 0)"
  proof -
    have "length [85..120::int] = 36"
      by (simp only: length_upto)
    then show ?thesis
      by (simp only:)
  qed
  finally have a: "map payoff (generatePayoffData s) = replicate 36 (Fin 0)" .
  have b: "map price (generatePayoffData s) = [85..120]"
    by (simp only: generatePayoffData_eq map_map comp_def price_payoff_entry map_ident)
  have c: "getBreakeven s = Fin (currentPrice s)"
    using assms by (simp add: getBreakeven_def)
  from a b c show ?thesis by blast
qed

theorem unknown_strategy_zero_curve_witness:
  "strategy (initial_state\<lparr>strategy := ''straddle''\<rparr>)
     \<notin> {''collar'', ''protective_put'', ''bear_put_spread''} \<and>
   map payoff (generatePayoffData (initial_state\<lparr>strategy := ''straddle''\<rparr>))
     = replicate 36 (Fin 0) \<and>
   getBreakeven (initial_state\<lparr>strategy := ''straddle''\<rparr>) = Fin 100"
proof -
  have h: "strategy (initial_state\<lparr>strategy := ''straddle''\<rparr>)
             \<notin> {''collar'', ''protective_put'', ''bear_put_spread''}"
    by simp
  from unknown_strategy_zero_curve [OF h] h show ?thesis
    by (simp add: initial_state_def)
qed

section \<open>Math.min and Math.max over the curve\<close>

lemma js_max2_Fin [simp]: "js_max2 (Fin x) (Fin y) = Fin (max x y)"
  by (auto simp add: js_max2_def max_def)

lemma js_min2_Fin [simp]: "js_min2 (Fin x) (Fin y) = Fin (min x y)"
  by (auto simp add: js_min2_def min_def)















lemma spec_payoff_bounds:
  "strikes_ordered sp \<Longrightarrow>
   spec_floor sp \<le> spec_payoff sp x \<and> (\<forall>c. spec_cap sp = Some c \<longrightarrow> spec_payoff sp x \<le> c)"
  by (cases sp)
    (auto simp add: spec_stock_leg_def spec_long_put_def spec_short_call_def
       spec_short_put_def max_def min_def)







section \<open>The bear put spread on the curve\<close>



section \<open>The breakeven\<close>







section \<open>What the sliders allow\<close>






section \<open>Validation of entered values\<close>

lemma addHoldingByShares_rejects:
  "js_trim symb = [] \<or> js_le qty (Fin 0) \<or> js_le pr (Fin 0) \<Longrightarrow>
   addHoldingByShares symb name qty pr = None"
  by (auto simp add: addHoldingByShares_def)

lemma addHoldingByShares_sent:
  "addHoldingByShares symb name qty pr = Some rq \<Longrightarrow>
   quantity rq = Some qty \<and> \<not> js_le qty (Fin 0) \<and> \<not> js_le pr (Fin 0) \<and> symbol rq \<noteq> []"
  by (auto simp add: addHoldingByShares_def toUpperCase_def split: if_splits)

lemma confirmAddToPortfolio_rejects:
  "qtyText = [] \<or> js_le (parseFloat qtyText) (Fin 0) \<Longrightarrow>
   confirmAddToPortfolio (Some symb) ''shares'' qtyText dollarText
     = Inl ''Please enter a valid number of shares''"
  by (auto simp add: confirmAddToPortfolio_def)

text \<open>
  Claim C7, as amended. A holding whose symbol is empty or blank, or whose quantity or
  price is at most 0, is rejected by \<open>addHoldingByShares\<close> before any request is sent,
  and a request that is sent carries the quantity given, which is not at most 0. A number
  of shares typed as an empty text, or as a text that \<open>parseFloat\<close> reads as a number at
  most 0, is rejected by \<open>confirmAddToPortfolio\<close> with an error message. The premium
  fields of a strategy are not validated: for every state, whatever the premium fields
  hold, the payoff curve is computed with its 36 points.
\<close>

theorem holding_checked_premium_unchecked:
  "(js_trim symb = [] \<or> js_le qty (Fin 0) \<or> js_le pr (Fin 0) \<longrightarrow>
      addHoldingByShares symb name qty pr = None) \<and>
   (addHoldingByShares symb name qty pr = Some rq \<longrightarrow>
      quantity rq = Some qty \<and> \<not> js_le qty (Fin 0) \<and> \<not> js_le pr (Fin 0) \<and>
      symbol rq \<noteq> []) \<and>
   (qtyText = [] \<or> js_le (parseFloat qtyText) (Fin 0) \<longrightarrow>
      confirmAddToPortfolio (Some stock) ''shares'' qtyText dollarText
        = Inl ''Please enter a valid number of shares'') \<and>
   length (generatePayoffData s) = 36"
  using addHoldingByShares_rejects [of symb qty pr name]
    addHoldingByShares_sent [of symb name qty pr rq]
    confirmAddToPortfolio_rejects [of qtyText stock dollarText]
    length_generatePayoffData [of s]
  by blast

theorem holding_checked_premium_unchecked_witness:
  "js_le (Fin 0) (Fin 0) \<and>
   addHoldingByShares ''aapl'' ''Apple'' (Fin 0) (Fin 150) = None \<and>
   addHoldingByShares '' aapl '' ''Apple'' (Fin 3) (Fin 150)
     = Some \<lparr>symbol = ''AAPL'', type = ''shares'', quantity = Some (Fin 3), amount = None\<rparr> \<and>
   \<not> js_le (Fin 3) (Fin 0) \<and>
   js_le (parseFloat ''0'') (Fin 0) \<and>
   confirmAddToPortfolio (Some ''aapl'') ''shares'' ''0'' []
     = Inl ''Please enter a valid number of shares'' \<and>
   length (generatePayoffData initial_state) = 36"
proof -
  let ?rq = "\<lparr>symbol = ''AAPL'', type = ''shares'', quantity = Some (Fin 3), amount = None\<rparr>"
  have a: "js_le (Fin 0) (Fin 0)"
    by simp
  have b: "addHoldingByShares '' aapl '' ''Apple'' (Fin 3) (Fin 150) = Some ?rq"
    by code_simp
  have p: "js_le (parseFloat ''0'') (Fin 0)"
    by code_simp
  from holding_checked_premium_unchecked [of "''aapl''" "Fin 0" "Fin 150" "''Apple''"
      ?rq "''0''" "''aapl''" "[]" initial_state] a p
  have c: "addHoldingByShares ''aapl'' ''Apple'' (Fin 0) (Fin 150) = None"
    "confirmAddToPortfolio (Some ''aapl'') ''shares'' ''0'' []
       = Inl ''Please enter a valid number of shares''"
    "length (generatePayoffData initial_state) = 36"
    by blast+
  from holding_checked_premium_unchecked [of "'' aapl ''" "Fin 3" "Fin 150" "''Apple''"
      ?rq "''0''" "''aapl''" "[]" initial_state] b
  have d: "\<not> js_le (Fin 3) (Fin 0)"
    by blast
  from a b c d p show ?thesis
    by blast
qed

text \<open>
  The claim as stated fails. With the put premium \<open>abc\<close> every payoff of the curve and
  the max loss are computed as NaN, and with the put premium \<open>-5\<close> the payoff at price
  100 is computed as 15. A number of shares typed as \<open>abc\<close> passes the check of
  \<open>confirmAddToPortfolio\<close>, and the request is sent with the quantity NaN.
\<close>

theorem premium_validation_counterexample:
  "parseFloat ''abc'' = NaN \<and>
   map payoff (generatePayoffData (setPutPremium ''abc'' initial_state)) = replicate 36 NaN \<and>
   maxLoss (setPutPremium ''abc'' initial_state) = NaN \<and>
   parseFloat ''-5'' = Fin (- 5) \<and>
   payoff_at (generatePayoffData (setPutPremium ''-5'' initial_state)) 100 = Some (Fin 15) \<and>
   confirmAddToPortfolio (Some ''aapl'') ''shares'' ''abc'' []
     = Inr \<lparr>symbol = ''AAPL'', type = ''shares'', quantity = Some NaN, amount = None\<rparr>"
  by code_simp

section \<open>Undefined risk metrics\<close>

lemma sharpe_undefined:
  "sample_volatility returns = 0 \<Longrightarrow>
   sharpe_of returns rf = Inl UndefinedMetricError \<and>
   sharpeRatio (computeMetrics returns benchmark rf) = None"
  by (simp add: sharpe_of_def computeMetrics_def nullable_def)

lemma beta_undefined:
  "(case benchmark of None \<Rightarrow> True | Some bs \<Rightarrow> variance bs = 0) \<Longrightarrow>
   beta_of returns benchmark = Inl UndefinedMetricError \<and>
   beta (computeMetrics returns benchmark rf) = None"
  by (cases benchmark) (simp_all add: beta_of_def computeMetrics_def nullable_def)

lemma volatility_computeMetrics:
  "volatility (computeMetrics returns benchmark rf) = sample_volatility returns"
  by (simp add: computeMetrics_def)

text \<open>
  Claim C8. For every sample of returns, the Sharpe ratio fails with
  \<open>UndefinedMetricError\<close> and is reported as null when the volatility is 0, and beta fails
  with \<open>UndefinedMetricError\<close> and is reported as null when the benchmark is absent or its
  variance is 0; the bundle is still produced, with its volatility.
\<close>

theorem undefined_metrics_are_null:
  "(sample_volatility returns = 0 \<longrightarrow>
      sharpe_of returns rf = Inl UndefinedMetricError \<and>
      sharpeRatio (computeMetrics returns benchmark rf) = None) \<and>
   ((case benchmark of None \<Rightarrow> True | Some bs \<Rightarrow> variance bs = 0) \<longrightarrow>
      beta_of returns benchmark = Inl UndefinedMetricError \<and>
      beta (computeMetrics returns benchmark rf) = None) \<and>
   volatility (computeMetrics returns benchmark rf) = sample_volatility returns"
  using sharpe_undefined [of returns rf benchmark] beta_undefined [of benchmark returns rf]
    volatility_computeMetrics [of returns benchmark rf]
  by blast

lemma variance_const2: "variance [c, c] = 0"
  by (simp add: variance_def covariance_def mean_def)

theorem undefined_metrics_are_null_witness:
  "sample_volatility [1 / 100, 1 / 100] = 0 \<and>
   sharpeRatio (computeMetrics [1 / 100, 1 / 100] None 0) = None \<and>
   beta (computeMetrics [1 / 100, 1 / 100] None 0) = None \<and>
   variance [2 / 100, 2 / 100] = 0 \<and>
   beta (computeMetrics [1 / 100, 3 / 100] (Some [2 / 100, 2 / 100]) 0) = None \<and>
   volatility (computeMetrics [1 / 100, 1 / 100] None 0) = 0"
proof -
  have v: "sample_volatility [1 / 100, 1 / 100] = 0"
    by (simp add: sample_volatility_def variance_const2)
  have w: "variance [2 / 100, 2 / 100] = 0"
    by (rule variance_const2)
  from undefined_metrics_are_null [of "[1 / 100, 1 / 100]" 0 None] v
  have a: "sharpeRatio (computeMetrics [1 / 100, 1 / 100] None 0) = None"
    "beta (computeMetrics [1 / 100, 1 / 100] None 0) = None"
    "volatility (computeMetrics [1 / 100, 1 / 100] None 0) = 0"
    by simp_all
  from undefined_metrics_are_null [of "[1 / 100, 3 / 100]" 0 "Some [2 / 100, 2 / 100]"] w
  have b: "beta (computeMetrics [1 / 100, 3 / 100] (Some [2 / 100, 2 / 100]) 0) = None"
    by simp
  from v w a b show ?thesis
    by blast
qed

end
